theory Spec2Isabelle
  imports Complex_Main "HOL-Library.Sublist"
begin

section \<open>Text\<close>

text \<open>
  Python strings are modelled as HOL strings (lists of characters). The characters the
  plan file format gives a meaning to are all ASCII. The characters below cannot be
  written inside a HOL string literal and get a name.
\<close>

abbreviation NL :: char where "NL \<equiv> CHR 0x0A"
abbreviation CR :: char where "CR \<equiv> CHR 0x0D"
abbreviation DQ :: char where "DQ \<equiv> CHR 0x22"
abbreviation BSL :: char where "BSL \<equiv> CHR 0x5C"
abbreviation BQ :: char where "BQ \<equiv> CHR 0x60"

text \<open>\<^verbatim>\<open>s.replace(c, r)\<close> for a pattern \<open>c\<close> of one character.\<close>

definition replace_char :: "char \<Rightarrow> string \<Rightarrow> string \<Rightarrow> string" where
  "replace_char c r s = concat (map (\<lambda>x. if x = c then r else [x]) s)"

definition is_digit :: "char \<Rightarrow> bool" where
  "is_digit c = (c \<in> set ''0123456789'')"

text \<open>\<^verbatim>\<open>s.lower()\<close> and \<^verbatim>\<open>s.upper()\<close>, on ASCII letters.\<close>

definition lower :: "string \<Rightarrow> string" where
  "lower s = map (\<lambda>c. if c \<in> set ''ABCDEFGHIJKLMNOPQRSTUVWXYZ''
                       then char_of (of_char c + (32::nat)) else c) s"

definition upper :: "string \<Rightarrow> string" where
  "upper s = map (\<lambda>c. if c \<in> set ''abcdefghijklmnopqrstuvwxyz''
                       then char_of (of_char c - (32::nat)) else c) s"

text \<open>\<^verbatim>\<open>str(n)\<close> for a natural number, and the formats \<^verbatim>\<open>{i}\<close> and \<^verbatim>\<open>{i:0wd}\<close> of an integer
  (zero padding counts the sign).\<close>

fun dec :: "nat \<Rightarrow> string" where
  "dec n = (if n < 10 then [''0123456789'' ! n]
            else dec (n div 10) @ [''0123456789'' ! (n mod 10)])"

declare dec.simps [simp del]

definition pad0 :: "nat \<Rightarrow> string \<Rightarrow> string" where
  "pad0 w s = replicate (w - length s) (CHR ''0'') @ s"

definition str_int :: "int \<Rightarrow> string" where
  "str_int i = (if i < 0 then CHR ''-'' # dec (nat (- i)) else dec (nat i))"

definition fmt_0d :: "nat \<Rightarrow> int \<Rightarrow> string" where
  "fmt_0d w i = (if i < 0 then CHR ''-'' # pad0 (w - 1) (dec (nat (- i)))
                 else pad0 w (dec (nat i)))"

section \<open>plan\_manager.py: the text of a plan record\<close>

text \<open>
  A step of a decomposition result is a Python dict read with \<^verbatim>\<open>.get\<close>; a key that is
  absent is \<open>None\<close> here, and \<open>other_keys\<close> are the keys of the dict that no function reads.
  The step number is an integer and the other values are strings, as the formats of
  \<open>write_plan\<close> expect. \<open>context\<close> is a dict of strings, kept as an association list in
  insertion order.
\<close>

record step =
  step_nr :: "int option"
  skill_name :: "string option"
  tool_name :: "string option"
  rationale :: "string option"
  sub_query :: "string option"
  other_keys :: "string list"

text \<open>
  The value under \<open>multi_steps\<close> is whatever the JSON of the planner holds; \<open>write_plan\<close>
  formats it with \<^verbatim>\<open>str(..).lower()\<close>. \<open>Py_other\<close> is any other value (a float, a list, a
  dict), given by the text \<^verbatim>\<open>str\<close> makes of it.
\<close>

datatype py_value = Py_none | Py_bool bool | Py_int int | Py_str string | Py_other string

record decomposition =
  multi_steps :: "py_value option"
  output_steps :: "step list option"

fun py_str :: "py_value \<Rightarrow> string" where
  "py_str Py_none = ''None''"
| "py_str (Py_bool b) = (if b then ''True'' else ''False'')"
| "py_str (Py_int i) = str_int i"
| "py_str (Py_str s) = s"
| "py_str (Py_other t) = t"

text \<open>One pass of the loop \<^verbatim>\<open>for step in output_steps\<close> of \<open>write_plan\<close>.\<close>

definition step_entry :: "string \<Rightarrow> step \<Rightarrow> string" where
  "step_entry plan_num st =
    (let nr = (case step_nr st of None \<Rightarrow> 0 | Some n \<Rightarrow> n);
         skill = (case skill_name st of Some s \<Rightarrow> s
                  | None \<Rightarrow> (case tool_name st of Some t \<Rightarrow> t | None \<Rightarrow> ''N/A''));
         rat = (case rationale st of None \<Rightarrow> ''N/A'' | Some r \<Rightarrow> r);
         sq = (case sub_query st of None \<Rightarrow> [] | Some q \<Rightarrow> q)
     in [NL] @ ''---STEP:'' @ fmt_0d 3 nr @ '':'' @ plan_num @ ''---'' @ [NL]
        @ ''@STEP_NR:'' @ str_int nr @ ''@'' @ [NL]
        @ ''@SKILL_NAME:'' @ skill @ ''@'' @ [NL]
        @ ''@RATIONALE:'' @ rat @ ''@'' @ [NL]
        @ (if sq \<noteq> [] then ''@SUB_QUERY:'' @ sq @ ''@'' @ [NL] else [])
        @ ''@STATUS:pending@'' @ [NL]
        @ ''@RESULT:@'' @ [NL]
        @ ''---END_STEP:'' @ fmt_0d 3 nr @ '':'' @ plan_num @ ''---'' @ [NL])"

definition context_line :: "string \<times> string \<Rightarrow> string" where
  "context_line kv = (if snd kv \<noteq> [] then ''@'' @ upper (fst kv) @ '':'' @ snd kv @ ''@'' @ [NL] else [])"

definition context_block :: "string \<Rightarrow> (string \<times> string) list option \<Rightarrow> string" where
  "context_block plan_num context =
    (case context of None \<Rightarrow> []
     | Some kvs \<Rightarrow> if kvs = [] then []
        else [NL] @ ''>>>CONTEXT:'' @ plan_num @ ''>>>'' @ [NL]
             @ concat (map context_line kvs)
             @ ''<<<CONTEXT:'' @ plan_num @ ''<<<'' @ [NL])"

definition plan_head :: "string \<Rightarrow> string \<Rightarrow> string \<Rightarrow> string" where
  "plan_head plan_num plan_id timestamp =
     [NL] @ ''<<<PLAN:'' @ plan_num @ ''>>>'' @ [NL]
     @ ''@PLAN_ID:'' @ plan_id @ ''@'' @ [NL]
     @ ''@PLAN_NUMBER:'' @ plan_num @ ''@'' @ [NL]
     @ ''@TIMESTAMP:'' @ timestamp @ ''@'' @ [NL]"

definition plan_tail :: "string \<Rightarrow> string" where
  "plan_tail plan_num =
     ''<<<STEPS:'' @ plan_num @ ''<<<'' @ [NL]
     @ [NL] @ ''<<<END_PLAN:'' @ plan_num @ ''>>>'' @ [NL]
     @ [NL] @ replicate 80 (CHR ''='') @ [NL]"

text \<open>The string \<open>plan_entry\<close> that \<open>write_plan\<close> builds, in the order of its \<^verbatim>\<open>+=\<close>.\<close>

definition plan_entry ::
  "string \<Rightarrow> string \<Rightarrow> string \<Rightarrow> string \<Rightarrow> decomposition \<Rightarrow> (string \<times> string) list option \<Rightarrow> string"
where
  "plan_entry plan_num plan_id timestamp user_query dr context =
    (let multi = (case multi_steps dr of None \<Rightarrow> Py_bool False | Some v \<Rightarrow> v);
         steps = (case output_steps dr of None \<Rightarrow> [] | Some ss \<Rightarrow> ss)
     in plan_head plan_num plan_id timestamp
        @ ''@MULTI_STEPS:'' @ lower (py_str multi) @ ''@'' @ [NL]
        @ ''@TOTAL_STEPS:'' @ str_int (int (length steps)) @ ''@'' @ [NL]
        @ [NL] @ ''>>>QUERY:'' @ plan_num @ ''>>>'' @ [NL] @ user_query @ [NL]
        @ ''<<<QUERY:'' @ plan_num @ ''<<<'' @ [NL]
        @ context_block plan_num context
        @ [NL] @ ''>>>STEPS:'' @ plan_num @ ''>>>'' @ [NL]
        @ concat (map (step_entry plan_num) steps)
        @ plan_tail plan_num)"

section \<open>plan\_manager.py: sanitising a result\<close>

text \<open>The first statement of \<open>update_step_status\<close>, and the one of its Python fallback.\<close>

definition sanitize_result :: "string \<Rightarrow> string" where
  "sanitize_result result =
     take 500 (replace_char DQ [BSL, DQ]
                (replace_char NL '' '' (replace_char (CHR ''@'') ''(at)'' result)))"

definition sanitize_result_fallback :: "string \<Rightarrow> string" where
  "sanitize_result_fallback result =
     take 500 (replace_char NL '' '' (replace_char (CHR ''@'') ''(at)'' result))"

section \<open>The tools the plan manager drives\<close>

text \<open>
  \<open>plan_manager.py\<close> edits the plan file by running \<open>sed\<close>, mostly through
  \<^verbatim>\<open>bash -c\<close>. What these tools do with the text they are given is part of what the
  functions do, so it is modelled here, on the fragment that the commands of
  \<open>plan_manager.py\<close> use. An outcome is \<open>Ran\<close> (exit status 0, with the result),
  \<open>Exit_nonzero\<close> (the tool rejects its script and leaves the file alone) or
  \<open>Beyond_model\<close>: the text makes the shell expand a variable, run a command or close the
  quotation, or makes \<open>sed\<close> read an operator this model does not cover.
\<close>

datatype 'a sh = Ran 'a | Exit_nonzero | Beyond_model

text \<open>\<^verbatim>\<open>s.split('\n')\<close>, the lines \<open>sed\<close> reads from a file, and the file it writes back:
  a last line without a newline stays without one.\<close>

fun split_nl :: "string \<Rightarrow> string list" where
  "split_nl [] = [[]]"
| "split_nl (c # cs) =
    (case split_nl cs of
       [] \<Rightarrow> [[c]]
     | l # ls \<Rightarrow> if c = NL then [] # l # ls else (c # l) # ls)"

definition unlines :: "string list \<Rightarrow> string" where
  "unlines ls = concat (map (\<lambda>l. l @ [NL]) ls)"

definition sed_lines :: "string \<Rightarrow> string list" where
  "sed_lines content =
    (if content = [] then []
     else if last content = NL then butlast (split_nl content)
     else split_nl content)"

text \<open>What a program reads from a pipe opened with \<^verbatim>\<open>text=True\<close>: universal newlines.\<close>

fun universal_newlines :: "string \<Rightarrow> string" where
  "universal_newlines [] = []"
| "universal_newlines [c] = (if c = CR then [NL] else [c])"
| "universal_newlines (c # d # cs) =
    (if c = CR then (if d = NL then NL # universal_newlines cs else NL # universal_newlines (d # cs))
     else c # universal_newlines (d # cs))"

definition sed_output :: "string \<Rightarrow> string list \<Rightarrow> string" where
  "sed_output content ls =
    (if content \<noteq> [] \<and> last content \<noteq> NL then butlast (unlines ls) else unlines ls)"

text \<open>
  Regular expressions. \<open>search m s\<close> is the leftmost position of \<open>s\<close> at which the anchored
  matcher \<open>m\<close> succeeds, with the text before it. \<open>lit\<close> matches a literal, \<open>anchor_at\<close> the
  patterns \<^verbatim>\<open>KEY[^@]*@\<close>, \<^verbatim>\<open>KEY[^@]+@\<close> and \<^verbatim>\<open>KEY[0-9]+@\<close> (the class repeats as far as it
  can and must then meet the closing \<^verbatim>\<open>@\<close>), giving the value and the text after the match.
\<close>

fun search :: "(string \<Rightarrow> 'a option) \<Rightarrow> string \<Rightarrow> (string \<times> 'a) option" where
  "search m [] = map_option (Pair []) (m [])"
| "search m (c # cs) =
    (case m (c # cs) of
       Some r \<Rightarrow> Some ([], r)
     | None \<Rightarrow> map_option (\<lambda>(b, r). (c # b, r)) (search m cs))"

definition lit :: "string \<Rightarrow> string \<Rightarrow> string option" where
  "lit p s = (if prefix p s then Some (drop (length p) s) else None)"

definition anchor_at :: "string \<Rightarrow> (char \<Rightarrow> bool) \<Rightarrow> bool \<Rightarrow> string \<Rightarrow> (string \<times> string) option" where
  "anchor_at key cls ne s =
    (case lit key s of
       None \<Rightarrow> None
     | Some r \<Rightarrow>
        (let v = takeWhile cls r; r' = dropWhile cls r
         in if (if ne then v \<noteq> [] else True) \<and> r' \<noteq> [] \<and> hd r' = CHR ''@''
            then Some (v, tl r') else None))"

definition not_at :: "char \<Rightarrow> bool" where
  "not_at c = (c \<noteq> CHR ''@'')"

text \<open>The addresses \<^verbatim>\<open>/---STEP:NNN:[0-9]+---/\<close> and \<^verbatim>\<open>/---END_STEP:NNN:[0-9]+---/\<close>.\<close>

definition step_marker_at :: "string \<Rightarrow> string \<Rightarrow> string \<Rightarrow> unit option" where
  "step_marker_at key nnn s =
    (case lit (key @ nnn @ '':'') s of
       None \<Rightarrow> None
     | Some r \<Rightarrow> if takeWhile is_digit r \<noteq> [] \<and> prefix ''---'' (dropWhile is_digit r)
                then Some () else None)"

definition line_matches :: "(string \<Rightarrow> 'a option) \<Rightarrow> string \<Rightarrow> bool" where
  "line_matches m l = (search m l \<noteq> None)"

text \<open>
  The inside of a double-quoted word of \<open>bash\<close>: a backslash is removed before
  \<^verbatim>\<open>$\<close>, a backquote, a double quote or a backslash, a backslash with a newline disappears, any
  other backslash stays. An unprotected \<^verbatim>\<open>$\<close>, backquote or double quote is beyond the model.
\<close>

fun bash_dq :: "string \<Rightarrow> string option" where
  "bash_dq [] = Some []"
| "bash_dq (c # cs) =
    (if c = BSL then
       (case cs of
          [] \<Rightarrow> Some [BSL]
        | d # ds \<Rightarrow>
            if d \<in> {CHR ''$'', BQ, DQ, BSL} then map_option ((#) d) (bash_dq ds)
            else if d = NL then bash_dq ds
            else map_option (\<lambda>r. BSL # d # r) (bash_dq ds))
     else if c \<in> {CHR ''$'', BQ, DQ} then None
     else map_option ((#) c) (bash_dq cs))"

text \<open>
  The replacement of a \<open>sed\<close> command \<^verbatim>\<open>s/regex/replacement/\<close>, for a regex without groups:
  \<^verbatim>\<open>&\<close> stands for the matched text, \<^verbatim>\<open>\n\<close> for a newline, a backslash before a character
  that is neither a letter nor a digit gives that character; \<^verbatim>\<open>\1\<close> to \<^verbatim>\<open>\9\<close> and a bare
  newline make \<open>sed\<close> reject the script. A bare \<^verbatim>\<open>/\<close> ends the replacement early and the
  other escapes of GNU \<open>sed\<close> are beyond the model.
\<close>

datatype rhs_item = Lit char | Whole

definition is_alnum :: "char \<Rightarrow> bool" where
  "is_alnum c = (c \<in> set ''0123456789abcdefghijklmnopqrstuvwxyzABCDEFGHIJKLMNOPQRSTUVWXYZ'')"

definition sh_cons :: "'a \<Rightarrow> 'a list sh \<Rightarrow> 'a list sh" where
  "sh_cons x r = (case r of Ran xs \<Rightarrow> Ran (x # xs) | Exit_nonzero \<Rightarrow> Exit_nonzero
                  | Beyond_model \<Rightarrow> Beyond_model)"

definition sh_fail :: "'a list sh \<Rightarrow> 'a list sh" where
  "sh_fail r = (case r of Beyond_model \<Rightarrow> Beyond_model | _ \<Rightarrow> Exit_nonzero)"

fun sed_rhs :: "string \<Rightarrow> rhs_item list sh" where
  "sed_rhs [] = Ran []"
| "sed_rhs (c # cs) =
    (if c = BSL then
       (case cs of
          [] \<Rightarrow> Beyond_model
        | d # ds \<Rightarrow>
            if d = CHR ''n'' then sh_cons (Lit NL) (sed_rhs ds)
            else if d \<in> set ''123456789'' then sh_fail (sed_rhs ds)
            else if is_alnum d then Beyond_model
            else sh_cons (Lit d) (sed_rhs ds))
     else if c = CHR ''&'' then sh_cons Whole (sed_rhs cs)
     else if c = CHR ''/'' then Beyond_model
     else if c = NL then Exit_nonzero
     else sh_cons (Lit c) (sed_rhs cs))"

definition expand :: "rhs_item list \<Rightarrow> string \<Rightarrow> string" where
  "expand items matched = concat (map (\<lambda>i. case i of Lit c \<Rightarrow> [c] | Whole \<Rightarrow> matched) items)"

text \<open>\<^verbatim>\<open>s/KEY[class]*@/replacement/\<close> on one line: the first match is replaced.\<close>

definition subst_anchor :: "string \<Rightarrow> (char \<Rightarrow> bool) \<Rightarrow> bool \<Rightarrow> rhs_item list \<Rightarrow> string \<Rightarrow> string" where
  "subst_anchor key cls ne items l =
    (case search (anchor_at key cls ne) l of
       None \<Rightarrow> l
     | Some (before, (v, after)) \<Rightarrow> before @ expand items (key @ v @ ''@'') @ after)"

text \<open>
  A regex address built from a text: the text matches itself when it holds no operator of
  an extended regular expression; \<^verbatim>\<open>\/\<close> and \<^verbatim>\<open>\&\<close> match the character.
\<close>

fun ere_literal :: "string \<Rightarrow> string option" where
  "ere_literal [] = Some []"
| "ere_literal (c # cs) =
    (if c = BSL then
       (case cs of
          [] \<Rightarrow> None
        | d # ds \<Rightarrow> if d \<in> {CHR ''/'', CHR ''&''} then map_option ((#) d) (ere_literal ds) else None)
     else if c \<in> set ''.[]()*+?{}|^$/'' \<or> c = NL then None
     else map_option ((#) c) (ere_literal cs))"

text \<open>
  An address range \<^verbatim>\<open>/start/,/end/\<close>: a line that matches \<open>start\<close> opens it, the end is looked
  for from the next line on, and the line that matches \<open>end\<close> is the last one inside. The
  pair is (is this line inside, is the range open after it).
\<close>

definition range_step :: "bool \<Rightarrow> bool \<Rightarrow> bool \<Rightarrow> bool \<times> bool" where
  "range_step active starts ends = (if active then (True, \<not> ends) else (starts, starts))"

text \<open>
  The script \<^verbatim>\<open>/a1/,/a2/{ /b1/,/b2/{ s/../../; } }\<close>: the inner range is looked at only on
  the lines of the outer one, the command \<open>f\<close> runs on the lines of both.
\<close>

fun sed_nested ::
  "(string \<Rightarrow> bool) \<Rightarrow> (string \<Rightarrow> bool) \<Rightarrow> (string \<Rightarrow> bool) \<Rightarrow> (string \<Rightarrow> bool) \<Rightarrow>
   (string \<Rightarrow> string) \<Rightarrow> bool \<times> bool \<Rightarrow> string list \<Rightarrow> string list"
where
  "sed_nested a1 a2 b1 b2 f st [] = []"
| "sed_nested a1 a2 b1 b2 f st (l # ls) =
    (let (osel, oa) = range_step (fst st) (a1 l) (a2 l)
     in if osel then
          (let (isel, ia) = range_step (snd st) (b1 l) (b2 l)
           in (if isel then f l else l) # sed_nested a1 a2 b1 b2 f (oa, ia) ls)
        else l # sed_nested a1 a2 b1 b2 f (oa, snd st) ls)"

text \<open>A command without an address runs on every line (\<^verbatim>\<open>sed -i 's/../../' file\<close>).\<close>

definition sed_s_all :: "string \<Rightarrow> (char \<Rightarrow> bool) \<Rightarrow> bool \<Rightarrow> string \<Rightarrow> string \<Rightarrow> string sh" where
  "sed_s_all key cls ne replacement content =
    (case sed_rhs replacement of
       Ran items \<Rightarrow> Ran (sed_output content (map (subst_anchor key cls ne items) (sed_lines content)))
     | Exit_nonzero \<Rightarrow> Exit_nonzero
     | Beyond_model \<Rightarrow> Beyond_model)"

text \<open>\<^verbatim>\<open>sed -n '/start/,/end/p'\<close>: the lines of the ranges, marked.\<close>

fun sed_range_marks :: "(string \<Rightarrow> bool) \<Rightarrow> (string \<Rightarrow> bool) \<Rightarrow> bool \<Rightarrow> string list \<Rightarrow> (bool \<times> string) list" where
  "sed_range_marks a1 a2 active [] = []"
| "sed_range_marks a1 a2 active (l # ls) =
    (let (sel, active') = range_step active (a1 l) (a2 l)
     in (sel, l) # sed_range_marks a1 a2 active' ls)"

definition sed_n_range_p :: "(string \<Rightarrow> bool) \<Rightarrow> (string \<Rightarrow> bool) \<Rightarrow> string \<Rightarrow> string" where
  "sed_n_range_p a1 a2 content =
    (let marks = sed_range_marks a1 a2 False (sed_lines content);
         out = unlines (map snd (filter fst marks))
     in if content \<noteq> [] \<and> last content \<noteq> NL \<and> marks \<noteq> [] \<and> fst (last marks)
        then butlast out else out)"

text \<open>
  The replacement template of Python's \<^verbatim>\<open>re.sub\<close>, after the leading \<^verbatim>\<open>\1\<close> that the source
  writes itself: \<^verbatim>\<open>\\\<close> is a backslash, \<^verbatim>\<open>\n\<close> a newline, a backslash before a character
  that is neither a letter nor a digit stays with that character. The other escapes
  (group references, octal codes, \<^verbatim>\<open>\g<..>\<close>, letters that raise \<^verbatim>\<open>re.error\<close>) are beyond the
  model: \<open>None\<close>.
\<close>

fun py_template :: "string \<Rightarrow> string option" where
  "py_template [] = Some []"
| "py_template (c # cs) =
    (if c = BSL then
       (case cs of
          [] \<Rightarrow> None
        | d # ds \<Rightarrow>
            if d = BSL then map_option ((#) BSL) (py_template ds)
            else if d = CHR ''n'' then map_option ((#) NL) (py_template ds)
            else if is_alnum d then None
            else map_option (\<lambda>r. BSL # d # r) (py_template ds))
     else map_option ((#) c) (py_template cs))"

text \<open>\<^verbatim>\<open>\d{n}\<close>: exactly \<open>n\<close> digits.\<close>

definition digits_n :: "nat \<Rightarrow> string \<Rightarrow> (string \<times> string) option" where
  "digits_n n s = (if n \<le> length s \<and> list_all is_digit (take n s) then Some (take n s, drop n s) else None)"

text \<open>\<^verbatim>\<open><<<PLAN:(\d{6})>>>(.*?)<<<END_PLAN:\1>>>\<close> with \<open>re.DOTALL\<close>, anchored: the number, the
  second group and the text after the match.\<close>

definition plan_at :: "string \<Rightarrow> (string \<times> string \<times> string) option" where
  "plan_at s =
    (case lit ''<<<PLAN:'' s of None \<Rightarrow> None | Some r \<Rightarrow>
    (case digits_n 6 r of None \<Rightarrow> None | Some (d, r1) \<Rightarrow>
    (case lit ''>>>'' r1 of None \<Rightarrow> None | Some r2 \<Rightarrow>
    (case search (lit (''<<<END_PLAN:'' @ d @ ''>>>'')) r2 of None \<Rightarrow> None
     | Some (body, after) \<Rightarrow> Some (d, body, after)))))"

text \<open>\<^verbatim>\<open>---STEP:(\d{3}):\d{6}---(.*?)---END_STEP:\1:\d{6}---\<close>, anchored: the second group and
  the text after the match.\<close>

definition end_step_at :: "string \<Rightarrow> string \<Rightarrow> string option" where
  "end_step_at n s =
    (case lit (''---END_STEP:'' @ n @ '':'') s of None \<Rightarrow> None | Some r \<Rightarrow>
    (case digits_n 6 r of None \<Rightarrow> None | Some (d, r1) \<Rightarrow> lit ''---'' r1))"

definition step_at :: "string \<Rightarrow> (string \<times> string) option" where
  "step_at s =
    (case lit ''---STEP:'' s of None \<Rightarrow> None | Some r \<Rightarrow>
    (case digits_n 3 r of None \<Rightarrow> None | Some (n, r1) \<Rightarrow>
    (case lit '':'' r1 of None \<Rightarrow> None | Some r2 \<Rightarrow>
    (case digits_n 6 r2 of None \<Rightarrow> None | Some (d, r3) \<Rightarrow>
    (case lit ''---'' r3 of None \<Rightarrow> None | Some r4 \<Rightarrow>
       search (end_step_at n) r4)))))"

text \<open>\<^verbatim>\<open>(---STEP:NNN:\d{6}---.*?)KEY[^@]*@\<close>, anchored: the first group and the text after
  the match.\<close>

definition step_anchor_at :: "string \<Rightarrow> string \<Rightarrow> bool \<Rightarrow> string \<Rightarrow> (string \<times> string) option" where
  "step_anchor_at nnn key ne s =
    (case lit (''---STEP:'' @ nnn @ '':'') s of None \<Rightarrow> None | Some r \<Rightarrow>
    (case digits_n 6 r of None \<Rightarrow> None | Some (d, r1) \<Rightarrow>
    (case lit ''---'' r1 of None \<Rightarrow> None | Some r2 \<Rightarrow>
    (case search (anchor_at key not_at ne) r2 of None \<Rightarrow> None
     | Some (mid, (v, after)) \<Rightarrow> Some (''---STEP:'' @ nnn @ '':'' @ d @ ''---'' @ mid, after)))))"

text \<open>
  \<^verbatim>\<open>re.finditer\<close> and \<^verbatim>\<open>re.sub\<close>: the matches from left to right, each search starting where
  the last match ended. Every match of the patterns above has at least one character;
  the test on the lengths says so to the termination proof.
\<close>

function finditer :: "(string \<Rightarrow> ('a \<times> string) option) \<Rightarrow> string \<Rightarrow> 'a list" where
  "finditer m s =
    (case search m s of
       None \<Rightarrow> []
     | Some (before, (a, after)) \<Rightarrow>
         a # (if length after < length s then finditer m after else []))"
  by pat_completeness auto
termination
  by (relation "measure (\<lambda>(m, s). length s)") auto

declare finditer.simps [simp del]

function re_sub :: "(string \<Rightarrow> ('a \<times> string) option) \<Rightarrow> ('a \<Rightarrow> string option) \<Rightarrow> string \<Rightarrow> string option" where
  "re_sub m f s =
    (case search m s of
       None \<Rightarrow> Some s
     | Some (before, (a, after)) \<Rightarrow>
        (case f a of
           None \<Rightarrow> None
         | Some r \<Rightarrow>
            (case (if length after < length s then re_sub m f after else Some after) of
               None \<Rightarrow> None
             | Some rest \<Rightarrow> Some (before @ r @ rest))))"
  by pat_completeness auto
termination
  by (relation "measure (\<lambda>(m, f, s). length s)") auto

declare re_sub.simps [simp del]

section \<open>plan\_manager.py: PlanManager\<close>

text \<open>The object: the content of the plan file and the counter \<open>plans_count\<close>.\<close>

record plan_manager =
  plan_file :: string
  plans_count :: nat

definition header :: "string \<Rightarrow> string" where
  "header timestamp =
     replicate 80 (CHR ''='') @ [NL]
     @ ''                    QUERY DECOMPOSITION PLANS'' @ [NL]
     @ replicate 80 (CHR ''='') @ [NL]
     @ [NL]
     @ ''@FILE_CREATED:'' @ timestamp @ ''@'' @ [NL]
     @ ''@LAST_UPDATED:'' @ timestamp @ ''@'' @ [NL]
     @ ''@TOTAL_PLANS:0@'' @ [NL]
     @ [NL]
     @ ''This file stores query decomposition plans in a grep-friendly anchor format.'' @ [NL]
     @ ''Each plan can be easily searched, modified, or have steps added/updated.'' @ [NL]
     @ [NL]
     @ replicate 80 (CHR ''='') @ [NL]
     @ [NL]"

text \<open>\<open>_initialize_file\<close>: a new file holds the header.\<close>

definition initialize_file :: "string \<Rightarrow> plan_manager" where
  "initialize_file timestamp = \<lparr>plan_file = header timestamp, plans_count = 0\<rparr>"

text \<open>A \<open>sed\<close> run with \<^verbatim>\<open>check=False\<close>: a rejected script leaves the file as it is.\<close>

definition check_false :: "string \<Rightarrow> string sh \<Rightarrow> string option" where
  "check_false content r = (case r of Ran c \<Rightarrow> Some c | Exit_nonzero \<Rightarrow> Some content | Beyond_model \<Rightarrow> None)"

definition update_metadata_fast :: "string \<Rightarrow> string \<Rightarrow> string option" where
  "update_metadata_fast now content =
     check_false content (sed_s_all ''@LAST_UPDATED:'' not_at False (''@LAST_UPDATED:'' @ now @ ''@'') content)"

definition update_metadata :: "string \<Rightarrow> nat \<Rightarrow> string \<Rightarrow> string option" where
  "update_metadata now count content =
     (case update_metadata_fast now content of
        None \<Rightarrow> None
      | Some c \<Rightarrow> check_false c (sed_s_all ''@TOTAL_PLANS:'' is_digit True (''@TOTAL_PLANS:'' @ dec count @ ''@'') c))"




text \<open>
  \<open>update_step_status\<close>, the \<open>sed\<close> commands. The plan identifier goes into an address and
  the status or the sanitised result into a replacement, each after
  \<^verbatim>\<open>.replace('\\', '\\\\').replace('/', '\\/').replace('&', '\\&')\<close>, inside a double-quoted
  word of a \<^verbatim>\<open>bash -c\<close> command line.
\<close>

definition sed_escape :: "string \<Rightarrow> string" where
  "sed_escape s =
     replace_char (CHR ''&'') [BSL, CHR ''&'']
       (replace_char (CHR ''/'') [BSL, CHR ''/''] (replace_char BSL [BSL, BSL] s))"

definition sed_step_cmd :: "string \<Rightarrow> string \<Rightarrow> string \<Rightarrow> bool \<Rightarrow> string \<Rightarrow> string \<Rightarrow> string sh" where
  "sed_step_cmd plan_id step_nr_padded key ne val content =
    (case bash_dq (sed_escape plan_id) of None \<Rightarrow> Beyond_model | Some p \<Rightarrow>
    (case ere_literal p of None \<Rightarrow> Beyond_model | Some pid \<Rightarrow>
    (case bash_dq (key @ sed_escape val @ ''@'') of None \<Rightarrow> Beyond_model | Some rhs \<Rightarrow>
    (case sed_rhs rhs of
       Beyond_model \<Rightarrow> Beyond_model
     | Exit_nonzero \<Rightarrow> Exit_nonzero
     | Ran items \<Rightarrow>
         Ran (sed_output content
           (sed_nested
              (sublist (''@PLAN_ID:'' @ pid @ ''@''))
              (sublist ''<<<END_PLAN:'')
              (line_matches (step_marker_at ''---STEP:'' step_nr_padded))
              (line_matches (step_marker_at ''---END_STEP:'' step_nr_padded))
              (subst_anchor key not_at ne items)
              (False, False)
              (sed_lines content)))))))"

text \<open>\<open>_update_step_status_python_fallback\<close>: \<open>update_plan\<close> is its inner function. The file is
  read through \<^verbatim>\<open>cat\<close> with \<^verbatim>\<open>text=True\<close>.\<close>

definition py_expand :: "string \<Rightarrow> string \<Rightarrow> string" where
  "py_expand tmpl group1 = group1 @ tmpl"

definition update_plan :: "string \<Rightarrow> int \<Rightarrow> string \<Rightarrow> string option \<Rightarrow> string \<times> string \<Rightarrow> string option" where
  "update_plan plan_id nr status result m =
    (let plan_num = fst m; plan_content = snd m;
         nnn = fmt_0d 3 nr;
         id_match = search (anchor_at ''@PLAN_ID:'' not_at True) plan_content;
         updated =
          (if (case id_match of None \<Rightarrow> False | Some (b, (v, a)) \<Rightarrow> v = plan_id) then
             (case py_template (''@STATUS:'' @ status @ ''@'') of None \<Rightarrow> None | Some t1 \<Rightarrow>
             (case re_sub (step_anchor_at nnn ''@STATUS:'' True) (\<lambda>g. Some (py_expand t1 g)) plan_content of
                None \<Rightarrow> None
              | Some pc1 \<Rightarrow>
                 (case result of
                    None \<Rightarrow> Some pc1
                  | Some r \<Rightarrow>
                     (case py_template (''@RESULT:'' @ sanitize_result_fallback r @ ''@'') of
                        None \<Rightarrow> None
                      | Some t2 \<Rightarrow> re_sub (step_anchor_at nnn ''@RESULT:'' False) (\<lambda>g. Some (py_expand t2 g)) pc1))))
           else Some plan_content)
     in map_option (\<lambda>pc. ''<<<PLAN:'' @ plan_num @ ''>>>'' @ pc @ ''<<<END_PLAN:'' @ plan_num @ ''>>>'') updated)"

definition plan_match :: "string \<Rightarrow> ((string \<times> string) \<times> string) option" where
  "plan_match s = map_option (\<lambda>(d, body, after). ((d, body), after)) (plan_at s)"

definition update_step_status_python_fallback ::
  "plan_manager \<Rightarrow> string \<Rightarrow> string \<Rightarrow> int \<Rightarrow> string \<Rightarrow> string option \<Rightarrow> (bool \<times> plan_manager) option"
where
  "update_step_status_python_fallback pm now plan_id nr status result =
    (case re_sub plan_match (update_plan plan_id nr status result) (universal_newlines (plan_file pm)) of
       None \<Rightarrow> None
     | Some updated_content \<Rightarrow>
        (case update_metadata now (plans_count pm) updated_content of
           None \<Rightarrow> None
         | Some c \<Rightarrow> Some (True, pm\<lparr>plan_file := c\<rparr>)))"

text \<open>
  \<open>update_step_status\<close>: the status command, then the result command when a result is
  given; when both exit with 0 the header is touched and the answer is \<open>True\<close>; when one is
  rejected the Python fallback takes over from the file as it then is. \<open>None\<close>: beyond the
  model of the tools.
\<close>

definition update_step_status ::
  "plan_manager \<Rightarrow> string \<Rightarrow> string \<Rightarrow> int \<Rightarrow> string \<Rightarrow> string option \<Rightarrow> (bool \<times> plan_manager) option"
where
  "update_step_status pm now plan_id nr status result =
    (let step_nr_padded = fmt_0d 3 nr;
         sanitized_result = map_option sanitize_result result;
         finish = (\<lambda>c. map_option (\<lambda>c'. (True, pm\<lparr>plan_file := c'\<rparr>)) (update_metadata_fast now c));
         fallback = (\<lambda>c. update_step_status_python_fallback (pm\<lparr>plan_file := c\<rparr>) now plan_id nr status result)
     in case sed_step_cmd plan_id step_nr_padded ''@STATUS:'' True status (plan_file pm) of
          Beyond_model \<Rightarrow> None
        | Exit_nonzero \<Rightarrow> fallback (plan_file pm)
        | Ran c1 \<Rightarrow>
           (case sanitized_result of
              None \<Rightarrow> finish c1
            | Some r \<Rightarrow>
               (case sed_step_cmd plan_id step_nr_padded ''@RESULT:'' False r c1 of
                  Beyond_model \<Rightarrow> None
                | Exit_nonzero \<Rightarrow> fallback c1
                | Ran c2 \<Rightarrow> finish c2)))"

text \<open>
  \<open>get_plan\<close>. \<^verbatim>\<open>str.strip()\<close> and \<^verbatim>\<open>int(..)\<close> first: \<open>int\<close> accepts blanks around an optional
  sign and digits, with single underscores between digits, and raises \<open>ValueError\<close>
  (\<open>None\<close>) on anything else.
\<close>

definition is_space :: "char \<Rightarrow> bool" where
  "is_space c = (c \<in> set [CHR '' '', CHR 0x09, NL, CHR 0x0B, CHR 0x0C, CHR 0x0D,
                           CHR 0x1C, CHR 0x1D, CHR 0x1E, CHR 0x1F, CHR 0x85, CHR 0xA0])"

definition py_strip :: "string \<Rightarrow> string" where
  "py_strip s = rev (dropWhile is_space (rev (dropWhile is_space s)))"

definition digit_val :: "char \<Rightarrow> nat" where
  "digit_val c = of_char c - 48"

fun underscores_ok :: "string \<Rightarrow> bool" where
  "underscores_ok [] = False"
| "underscores_ok [c] = is_digit c"
| "underscores_ok (c # d # cs) =
    (if is_digit c then underscores_ok (d # cs)
     else c = CHR ''_'' \<and> is_digit d \<and> underscores_ok (d # cs))"

definition py_nat :: "string \<Rightarrow> nat option" where
  "py_nat s =
    (if s \<noteq> [] \<and> is_digit (hd s) \<and> underscores_ok s
     then Some (foldl (\<lambda>a c. 10 * a + digit_val c) 0 (filter is_digit s)) else None)"

definition py_int :: "string \<Rightarrow> int option" where
  "py_int s =
    (case py_strip s of
       [] \<Rightarrow> None
     | c # cs \<Rightarrow>
        if c = CHR ''-'' then map_option (\<lambda>n. - int n) (py_nat cs)
        else if c = CHR ''+'' then map_option int (py_nat cs)
        else map_option int (py_nat (c # cs)))"

text \<open>The dicts that \<open>get_plan\<close> returns.\<close>

record got_step =
  got_step_nr :: int
  got_skill_name :: string
  got_rationale :: string
  got_sub_query :: string
  got_status :: string
  got_result :: string

record got_plan =
  got_plan_id :: string
  got_plan_number :: string
  got_timestamp :: "string option"
  got_query :: "string option"
  got_multi_steps :: bool
  got_total_steps :: int
  got_steps :: "got_step list"

text \<open>\<^verbatim>\<open>re.search(KEY([^@]+)@, text)\<close> and its first group.\<close>

definition anchor_value :: "string \<Rightarrow> bool \<Rightarrow> string \<Rightarrow> string option" where
  "anchor_value key ne text = map_option (\<lambda>(before, v, after). v) (search (anchor_at key not_at ne) text)"

text \<open>\<^verbatim>\<open>>>>QUERY:\d{6}>>>\n(.*?)\n<<<QUERY:\d{6}<<<\<close>, anchored.\<close>

definition end_query_at :: "string \<Rightarrow> string option" where
  "end_query_at s =
    (case lit (NL # ''<<<QUERY:'') s of None \<Rightarrow> None | Some r \<Rightarrow>
    (case digits_n 6 r of None \<Rightarrow> None | Some (d, r1) \<Rightarrow> lit ''<<<'' r1))"

definition query_at :: "string \<Rightarrow> (string \<times> string) option" where
  "query_at s =
    (case lit ''>>>QUERY:'' s of None \<Rightarrow> None | Some r \<Rightarrow>
    (case digits_n 6 r of None \<Rightarrow> None | Some (d, r1) \<Rightarrow>
    (case lit (''>>>'' @ [NL]) r1 of None \<Rightarrow> None | Some r2 \<Rightarrow> search end_query_at r2)))"

text \<open>The body of the loop over the step matches; \<open>None\<close> when \<open>int\<close> raises.\<close>

definition parse_step :: "string \<Rightarrow> got_step option" where
  "parse_step step_content =
    (case (case anchor_value ''@STEP_NR:'' True step_content of None \<Rightarrow> Some 0 | Some v \<Rightarrow> py_int v) of
       None \<Rightarrow> None
     | Some nr \<Rightarrow>
        Some \<lparr>got_step_nr = nr,
              got_skill_name = (case anchor_value ''@SKILL_NAME:'' True step_content of None \<Rightarrow> ''N/A'' | Some v \<Rightarrow> v),
              got_rationale = (case anchor_value ''@RATIONALE:'' True step_content of None \<Rightarrow> ''N/A'' | Some v \<Rightarrow> v),
              got_sub_query = (case anchor_value ''@SUB_QUERY:'' True step_content of None \<Rightarrow> [] | Some v \<Rightarrow> v),
              got_status = (case anchor_value ''@STATUS:'' True step_content of None \<Rightarrow> ''pending'' | Some v \<Rightarrow> v),
              got_result = (case anchor_value ''@RESULT:'' False step_content of None \<Rightarrow> [] | Some v \<Rightarrow> v)\<rparr>)"

fun parse_steps :: "string list \<Rightarrow> got_step list option" where
  "parse_steps [] = Some []"
| "parse_steps (c # cs) =
    (case parse_step c of None \<Rightarrow> None
     | Some st \<Rightarrow> (case parse_steps cs of None \<Rightarrow> None | Some sts \<Rightarrow> Some (st # sts)))"

definition parse_plan :: "string \<Rightarrow> string \<Rightarrow> string \<Rightarrow> got_plan option" where
  "parse_plan plan_id plan_num plan_content =
    (case parse_steps (finditer step_at plan_content) of
       None \<Rightarrow> None
     | Some steps \<Rightarrow>
        (case (case anchor_value ''@TOTAL_STEPS:'' True plan_content of None \<Rightarrow> Some 0 | Some v \<Rightarrow> py_int v) of
           None \<Rightarrow> None
         | Some total_steps \<Rightarrow>
            Some \<lparr>got_plan_id = plan_id,
                  got_plan_number = plan_num,
                  got_timestamp = anchor_value ''@TIMESTAMP:'' True plan_content,
                  got_query = map_option (\<lambda>(before, q, after). py_strip q) (search query_at plan_content),
                  got_multi_steps = (anchor_value ''@MULTI_STEPS:'' True plan_content = Some ''true''),
                  got_total_steps = total_steps,
                  got_steps = steps\<rparr>))"

text \<open>The loop over the plan matches: the first plan with the identifier is returned.\<close>

fun first_plan :: "string \<Rightarrow> (string \<times> string) list \<Rightarrow> got_plan option" where
  "first_plan plan_id [] = None"
| "first_plan plan_id (m # ms) =
    (if anchor_value ''@PLAN_ID:'' True (snd m) = Some plan_id
     then parse_plan plan_id (fst m) (snd m)
     else first_plan plan_id ms)"

definition get_plan :: "plan_manager \<Rightarrow> string \<Rightarrow> got_plan option" where
  "get_plan pm plan_id =
     first_plan plan_id
       (finditer plan_match
          (universal_newlines
             (sed_n_range_p (sublist ''<<<PLAN:'') (sublist ''<<<END_PLAN:'') (plan_file pm))))"

section \<open>The plan file as data\<close>

text \<open>
  A plan file in the format of section 6 of the specification, as a value: the header
  fields and the plan records, each step with its status and result. \<open>file_lines\<close> writes it
  out, line by line, as \<open>_initialize_file\<close> and \<open>write_plan\<close> do.
\<close>

record stored_step =
  ss_nr :: nat
  ss_skill_name :: string
  ss_rationale :: string
  ss_sub_query :: string
  ss_status :: string
  ss_result :: string

record stored_plan =
  sp_number :: nat
  sp_id :: string
  sp_timestamp :: string
  sp_multi_steps :: string
  sp_query :: string
  sp_context :: "(string \<times> string) list option"
  sp_steps :: "stored_step list"

record stored_file =
  sf_created :: string
  sf_last_updated :: string
  sf_total_plans :: nat
  sf_plans :: "stored_plan list"

definition step_lines :: "string \<Rightarrow> stored_step \<Rightarrow> string list" where
  "step_lines plan_num s =
     [[],
      ''---STEP:'' @ fmt_0d 3 (int (ss_nr s)) @ '':'' @ plan_num @ ''---'',
      ''@STEP_NR:'' @ str_int (int (ss_nr s)) @ ''@'',
      ''@SKILL_NAME:'' @ ss_skill_name s @ ''@'',
      ''@RATIONALE:'' @ ss_rationale s @ ''@'']
     @ (if ss_sub_query s \<noteq> [] then [''@SUB_QUERY:'' @ ss_sub_query s @ ''@''] else [])
     @ [''@STATUS:'' @ ss_status s @ ''@'',
        ''@RESULT:'' @ ss_result s @ ''@'',
        ''---END_STEP:'' @ fmt_0d 3 (int (ss_nr s)) @ '':'' @ plan_num @ ''---'']"

definition plan_lines :: "stored_plan \<Rightarrow> string list" where
  "plan_lines p =
    (let plan_num = fmt_0d 6 (int (sp_number p))
     in [[],
         ''<<<PLAN:'' @ plan_num @ ''>>>'',
         ''@PLAN_ID:'' @ sp_id p @ ''@'',
         ''@PLAN_NUMBER:'' @ plan_num @ ''@'',
         ''@TIMESTAMP:'' @ sp_timestamp p @ ''@'',
         ''@MULTI_STEPS:'' @ sp_multi_steps p @ ''@'',
         ''@TOTAL_STEPS:'' @ str_int (int (length (sp_steps p))) @ ''@'',
         [],
         ''>>>QUERY:'' @ plan_num @ ''>>>'']
        @ split_nl (sp_query p)
        @ [''<<<QUERY:'' @ plan_num @ ''<<<'']
        @ sed_lines (context_block plan_num (sp_context p))
        @ [[], ''>>>STEPS:'' @ plan_num @ ''>>>'']
        @ concat (map (step_lines plan_num) (sp_steps p))
        @ [''<<<STEPS:'' @ plan_num @ ''<<<'',
           [],
           ''<<<END_PLAN:'' @ plan_num @ ''>>>'',
           [],
           replicate 80 (CHR ''='')])"

definition header_lines :: "string \<Rightarrow> string \<Rightarrow> nat \<Rightarrow> string list" where
  "header_lines created last_updated total_plans =
     [replicate 80 (CHR ''=''),
      ''                    QUERY DECOMPOSITION PLANS'',
      replicate 80 (CHR ''=''),
      [],
      ''@FILE_CREATED:'' @ created @ ''@'',
      ''@LAST_UPDATED:'' @ last_updated @ ''@'',
      ''@TOTAL_PLANS:'' @ dec total_plans @ ''@'',
      [],
      ''This file stores query decomposition plans in a grep-friendly anchor format.'',
      ''Each plan can be easily searched, modified, or have steps added/updated.'',
      [],
      replicate 80 (CHR ''=''),
      []]"

definition file_lines :: "stored_file \<Rightarrow> string list" where
  "file_lines f =
     header_lines (sf_created f) (sf_last_updated f) (sf_total_plans f)
     @ concat (map plan_lines (sf_plans f))"

definition render :: "stored_file \<Rightarrow> string" where
  "render f = unlines (file_lines f)"

text \<open>
  Well-formed files. A free line (of the query or of the context block) holds none of the
  markers that the commands address; a value holds no \<^verbatim>\<open>@\<close>, no newline and none of the block
  markers; a status is not empty; step numbers have at most three digits and plan
  numbers at most six.
\<close>

definition has_none :: "string list \<Rightarrow> string \<Rightarrow> bool" where
  "has_none markers l = list_all (\<lambda>m. \<not> sublist m l) markers"

definition quiet :: "string \<Rightarrow> bool" where
  "quiet l = has_none [''@PLAN_ID:'', ''@LAST_UPDATED:'', ''@TOTAL_PLANS:'', ''<<<PLAN:'',
                       ''<<<END_PLAN:'', ''---STEP:'', ''---END_STEP:''] l"

definition clean_value :: "string \<Rightarrow> bool" where
  "clean_value v =
     (CHR ''@'' \<notin> set v \<and> NL \<notin> set v
      \<and> has_none [''<<<PLAN:'', ''<<<END_PLAN:'', ''---STEP:'', ''---END_STEP:''] v)"

definition wf_step :: "stored_step \<Rightarrow> bool" where
  "wf_step s =
     (ss_nr s \<le> 999 \<and> clean_value (ss_skill_name s) \<and> clean_value (ss_rationale s)
      \<and> clean_value (ss_sub_query s) \<and> clean_value (ss_status s) \<and> ss_status s \<noteq> []
      \<and> clean_value (ss_result s))"

definition wf_plan :: "stored_plan \<Rightarrow> bool" where
  "wf_plan p =
     (sp_number p \<le> 999999 \<and> clean_value (sp_id p) \<and> sp_id p \<noteq> []
      \<and> clean_value (sp_timestamp p) \<and> sp_timestamp p \<noteq> []
      \<and> clean_value (sp_multi_steps p) \<and> sp_multi_steps p \<noteq> []
      \<and> list_all quiet (split_nl (sp_query p))
      \<and> list_all quiet (sed_lines (context_block (fmt_0d 6 (int (sp_number p))) (sp_context p)))
      \<and> list_all wf_step (sp_steps p))"

definition wf_file :: "stored_file \<Rightarrow> bool" where
  "wf_file f =
     (clean_value (sf_created f) \<and> clean_value (sf_last_updated f) \<and> list_all wf_plan (sf_plans f))"

text \<open>
  What \<open>update_step_status\<close> is meant to do, on the data: in the plans with the identifier,
  the steps with the number get the status, and the result when one is given.
\<close>

definition set_step :: "int \<Rightarrow> string \<Rightarrow> string option \<Rightarrow> stored_step \<Rightarrow> stored_step" where
  "set_step nr status res s =
    (if int (ss_nr s) = nr
     then s\<lparr>ss_status := status, ss_result := (case res of None \<Rightarrow> ss_result s | Some r \<Rightarrow> r)\<rparr>
     else s)"

definition set_plan :: "string \<Rightarrow> int \<Rightarrow> string \<Rightarrow> string option \<Rightarrow> stored_plan \<Rightarrow> stored_plan" where
  "set_plan plan_id nr status res p =
    (if sp_id p = plan_id then p\<lparr>sp_steps := map (set_step nr status res) (sp_steps p)\<rparr> else p)"

text \<open>
  Texts that reach the file as they are: no backslash, \<^verbatim>\<open>$\<close>, backquote, double quote or
  newline (the shell and the replacement of \<open>sed\<close> read those), and for an identifier in an
  address no operator of a regular expression either.
\<close>

definition shell_plain :: "string \<Rightarrow> bool" where
  "shell_plain s = list_all (\<lambda>c. c \<notin> set [BSL, CHR ''$'', BQ, DQ, NL]) s"

definition address_plain :: "string \<Rightarrow> bool" where
  "address_plain s = list_all (\<lambda>c. c \<notin> set ([BSL, CHR ''$'', BQ, DQ, NL] @ ''.[]()*+?{}|^'')) s"

section \<open>query\_decomposition.py\<close>





section \<open>compare\_context\_engineering\_optimization\_on\_off.py: executing the steps\<close>

text \<open>
  The loop over the steps of \<open>run_query_with_optimization\<close>. What it does to the outside is
  recorded as a list of events: a call of the language model (system prompt and message), a
  skill run as a subprocess (skill, command, parameters, timeout) and a call of
  \<open>update_step_status\<close> (plan id, step number, status, result). The language model, the skill
  runner and the two helpers \<open>_infer_skill_command\<close> and \<open>_extract_skill_parameters\<close> are
  parameters.
\<close>

datatype 'p event =
    Invoke_llm string string
  | Execute_skill string string 'p nat
  | Update_step_status string nat string string

datatype skill_result = Success string | Failure "string option"

record 'p env =
  llm :: "string \<Rightarrow> string \<Rightarrow> string"
  infer_skill_command :: "string \<Rightarrow> string \<Rightarrow> string"
  extract_skill_parameters :: "string \<Rightarrow> string \<Rightarrow> 'p"
  execute_skill_subprocess :: "string \<Rightarrow> string \<Rightarrow> 'p \<Rightarrow> nat \<Rightarrow> skill_result"

text \<open>\<^verbatim>\<open>if not step: continue\<close>: a dict without keys is skipped.\<close>

definition is_empty_step :: "step \<Rightarrow> bool" where
  "is_empty_step st =
    (step_nr st = None \<and> skill_name st = None \<and> tool_name st = None \<and> rationale st = None
     \<and> sub_query st = None \<and> other_keys st = [])"

definition run_step :: "'p env \<Rightarrow> string \<Rightarrow> string \<Rightarrow> nat \<Rightarrow> step \<Rightarrow> 'p event list \<times> string" where
  "run_step env system_prompt plan_id nr st =
    (let skill = (case skill_name st of None \<Rightarrow> [] | Some s \<Rightarrow> s);
         sq = (case sub_query st of None \<Rightarrow> [] | Some q \<Rightarrow> q)
     in if skill \<in> set [''final_response'', ''chitchat'', ''none''] then
          (let final_response = llm env system_prompt sq
           in ([Invoke_llm system_prompt sq,
                Update_step_status plan_id nr ''completed'' (take 200 final_response)],
               final_response))
        else
          (let command = infer_skill_command env skill sq;
               parameters = extract_skill_parameters env skill sq;
               res = execute_skill_subprocess env skill command parameters 30;
               step_result = (case res of
                  Success out \<Rightarrow> take 200 out
                | Failure err \<Rightarrow> ''Error: '' @ (case err of None \<Rightarrow> ''Unknown error'' | Some m \<Rightarrow> m))
           in ([Execute_skill skill command parameters 30,
                Update_step_status plan_id nr
                  (case res of Success out \<Rightarrow> ''completed'' | Failure err \<Rightarrow> ''failed'') step_result],
               step_result)))"

fun run_steps :: "'p env \<Rightarrow> string \<Rightarrow> string \<Rightarrow> nat \<Rightarrow> step list \<Rightarrow> string \<Rightarrow> 'p event list \<times> string" where
  "run_steps env system_prompt plan_id update_idx [] final_response = ([], final_response)"
| "run_steps env system_prompt plan_id update_idx (st # steps) final_response =
    (if is_empty_step st then run_steps env system_prompt plan_id (update_idx + 1) steps final_response
     else
       (let r = run_step env system_prompt plan_id (update_idx + 1) st;
            rest = run_steps env system_prompt plan_id (update_idx + 1) steps (snd r)
        in (fst r @ fst rest, snd rest)))"

section \<open>compare\_context\_engineering\_optimization\_on\_off.py: retries\<close>

text \<open>An exception, as \<open>_is_retryable_error\<close> sees it: \<^verbatim>\<open>type(e).__name__\<close> and \<^verbatim>\<open>str(e)\<close>.\<close>

record exn =
  exn_type :: string
  exn_str :: string

definition is_retryable_error :: "exn \<Rightarrow> bool" where
  "is_retryable_error exception =
    (let error_str = exn_str exception; error_type = exn_type exception
     in if sublist ''504'' error_str \<or> sublist ''Gateway Timeout'' error_str then True
        else if list_ex (\<lambda>code. sublist code error_str) [''502'', ''503'', ''504'', ''429''] then True
        else list_ex (\<lambda>error_keyword. sublist error_keyword error_str \<or> sublist error_keyword error_type)
               [''ConnectionError'', ''Timeout'', ''timeout'', ''Connection reset'',
                ''Connection refused'', ''Network is unreachable'', ''Temporary failure'',
                ''Service temporarily unavailable''])"

text \<open>
  \<open>_retry_with_backoff\<close>. \<open>func k\<close> is what the \<open>k\<close>-th call of \<open>func\<close> does (it returns or
  raises), \<open>rnd k\<close> the value of \<^verbatim>\<open>random.random()\<close> after the \<open>k\<close>-th failure. The result is
  what the function returns or raises, and the list of the delays it slept. Delays are real
  numbers here. The first argument counts the passes of \<^verbatim>\<open>for attempt in range(max_retries + 1)\<close>
  that are left; when none is left the source raises \<open>last_exception\<close>.
\<close>

fun retry_loop ::
  "nat \<Rightarrow> (nat \<Rightarrow> exn + 'a) \<Rightarrow> (nat \<Rightarrow> real) \<Rightarrow> nat \<Rightarrow> real \<Rightarrow> real \<Rightarrow> real \<Rightarrow> bool \<Rightarrow> nat \<Rightarrow> exn
   \<Rightarrow> (exn + 'a) \<times> real list"
where
  "retry_loop 0 func rnd max_retries initial_delay max_delay backoff_factor jitter attempt last_exception =
     (Inl last_exception, [])"
| "retry_loop (Suc n) func rnd max_retries initial_delay max_delay backoff_factor jitter attempt last_exception =
     (case func attempt of
        Inr v \<Rightarrow> (Inr v, [])
      | Inl e \<Rightarrow>
          if \<not> is_retryable_error e then (Inl e, [])
          else if attempt \<ge> max_retries then (Inl e, [])
          else
            (let delay = min (initial_delay * backoff_factor ^ attempt) max_delay;
                 delay = (if jitter then delay + delay * 0.2 * rnd attempt else delay);
                 r = retry_loop n func rnd max_retries initial_delay max_delay backoff_factor jitter (attempt + 1) e
             in (fst r, delay # snd r)))"

definition retry_with_backoff ::
  "(nat \<Rightarrow> exn + 'a) \<Rightarrow> (nat \<Rightarrow> real) \<Rightarrow> nat \<Rightarrow> real \<Rightarrow> real \<Rightarrow> real \<Rightarrow> bool \<Rightarrow> (exn + 'a) \<times> real list"
where
  "retry_with_backoff func rnd max_retries initial_delay max_delay backoff_factor jitter =
     retry_loop (max_retries + 1) func rnd max_retries initial_delay max_delay backoff_factor jitter 0
       \<lparr>exn_type = ''TypeError'', exn_str = ''exceptions must derive from BaseException''\<rparr>"

text \<open>The call with the default settings.\<close>

definition retry_default :: "(nat \<Rightarrow> exn + 'a) \<Rightarrow> (nat \<Rightarrow> real) \<Rightarrow> (exn + 'a) \<times> real list" where
  "retry_default func rnd = retry_with_backoff func rnd 3 2 60 2 True"

section \<open>An example plan file\<close>

text \<open>
  The file after \<open>_initialize_file\<close> and one \<open>write_plan\<close> of a plan of one step, as a
  function of the four places the examples below vary: the header's \<open>LAST_UPDATED\<close>, the
  step's rationale, its status and the lines of its result.
\<close>

definition example_file :: "string \<Rightarrow> string \<Rightarrow> string \<Rightarrow> string list \<Rightarrow> string" where
  "example_file last_updated rationale_value status_value result_lines = unlines
    ([''================================================================================'',
      ''                    QUERY DECOMPOSITION PLANS'',
      ''================================================================================'',
      [],
      ''@FILE_CREATED:2026-02-01T09:00:00@'',
      ''@LAST_UPDATED:'' @ last_updated @ ''@'',
      ''@TOTAL_PLANS:1@'',
      [],
      ''This file stores query decomposition plans in a grep-friendly anchor format.'',
      ''Each plan can be easily searched, modified, or have steps added/updated.'',
      [],
      ''================================================================================'',
      [],
      [],
      ''<<<PLAN:000001>>>'',
      ''@PLAN_ID:1f0e-77@'',
      ''@PLAN_NUMBER:000001@'',
      ''@TIMESTAMP:2026-02-01T09:00:01@'',
      ''@MULTI_STEPS:false@'',
      ''@TOTAL_STEPS:1@'',
      [],
      ''>>>QUERY:000001>>>'',
      ''hello'',
      ''<<<QUERY:000001<<<'',
      [],
      ''>>>STEPS:000001>>>'',
      [],
      ''---STEP:001:000001---'',
      ''@STEP_NR:1@'',
      ''@SKILL_NAME:final_response@'',
      ''@RATIONALE:'' @ rationale_value @ ''@'',
      ''@SUB_QUERY:hello@'',
      ''@STATUS:'' @ status_value @ ''@''] @ result_lines @
     [''---END_STEP:001:000001---'',
      ''<<<STEPS:000001<<<'',
      [],
      ''<<<END_PLAN:000001>>>'',
      [],
      ''================================================================================''])"

definition example_step :: "string \<Rightarrow> step" where
  "example_step rationale_value =
    \<lparr>step_nr = Some 1, skill_name = Some ''final_response'', tool_name = None,
     rationale = Some rationale_value, sub_query = Some ''hello'', other_keys = []\<rparr>"

text \<open>Examples for the retry policy and for the execution of steps.\<close>

definition gateway_timeout :: exn where
  "gateway_timeout = \<lparr>exn_type = ''APIStatusError'', exn_str = ''Error code: 504''\<rparr>"

definition token_limit_error :: exn where
  "token_limit_error = \<lparr>exn_type = ''ValueError'', exn_str = ''max_tokens 4290 exceeds the limit''\<rparr>"

definition dns_failure :: exn where
  "dns_failure = \<lparr>exn_type = ''gaierror'', exn_str = ''[Errno -2] Name or service not known''\<rparr>"

definition refusing_env :: "unit env" where
  "refusing_env = \<lparr>llm = (\<lambda>system_prompt message. ''I cannot order a pizza.''),
     infer_skill_command = (\<lambda>skill sq. skill),
     extract_skill_parameters = (\<lambda>skill sq. ()),
     execute_skill_subprocess = (\<lambda>skill command parameters timeout. Failure None)\<rparr>"

definition none_step :: step where
  "none_step = \<lparr>step_nr = Some 1, skill_name = Some ''none'', tool_name = None,
     rationale = Some ''no skill can order food'', sub_query = Some ''order me a pizza'',
     other_keys = []\<rparr>"

section \<open>Facts\<close>

lemma set_replace_char:
  "set (replace_char c r s) = (set s - {c}) \<union> (if c \<in> set s then set r else {})"
  by (induction s) (auto simp: replace_char_def)

lemma length_replace_char_ge:
  "r \<noteq> [] \<Longrightarrow> length s \<le> length (replace_char c r s)"
proof (induction s)
  case Nil
  show ?case by (simp add: replace_char_def)
next
  case (Cons x s)
  from Cons.prems have "1 \<le> length r" by (cases r) auto
  with Cons show ?case by (auto simp: replace_char_def)
qed

lemma at_notin_sanitize_result: "CHR ''@'' \<notin> set (sanitize_result r)"
proof
  assume "CHR ''@'' \<in> set (sanitize_result r)"
  then have "CHR ''@'' \<in> set (replace_char DQ [BSL, DQ]
                (replace_char NL '' '' (replace_char (CHR ''@'') ''(at)'' r)))"
    unfolding sanitize_result_def by (rule in_set_takeD)
  then show False
    by (auto simp: set_replace_char split: if_splits)
qed

subsection \<open>Lines\<close>

lemma split_nl_ne [simp]: "split_nl s \<noteq> []"
  by (induction s) (auto split: list.splits)

lemma split_nl_append_NL: "split_nl (l @ NL # rest) = split_nl l @ split_nl rest"
proof (induction l)
  case Nil
  show ?case by (cases "split_nl rest") auto
next
  case (Cons c l)
  show ?case
  proof (cases "split_nl l")
    case Nil
    then show ?thesis using split_nl_ne by blast
  next
    case (Cons a as)
    with Cons.IH show ?thesis by (auto split: list.splits)
  qed
qed

lemma split_nl_no_NL: "NL \<notin> set l \<Longrightarrow> split_nl l = [l]"
  by (induction l) auto

lemma split_nl_unlines: "split_nl (unlines ls) = concat (map split_nl ls) @ [[]]"
  by (induction ls) (auto simp: unlines_def split_nl_append_NL)

lemma unlines_append: "unlines a @ unlines b = unlines (a @ b)"
  by (simp add: unlines_def)

lemma unlines_last: "ls \<noteq> [] \<Longrightarrow> unlines ls \<noteq> [] \<and> last (unlines ls) = NL"
  by (induction ls rule: rev_induct) (auto simp: unlines_def)

lemma sed_lines_unlines: "sed_lines (unlines ls) = concat (map split_nl ls)"
proof (cases "ls = []")
  case True
  then show ?thesis by (simp add: sed_lines_def unlines_def)
next
  case False
  then show ?thesis using unlines_last[OF False]
    by (simp add: sed_lines_def split_nl_unlines)
qed

lemma sed_output_unlines: "sed_output (unlines ls) ls' = unlines ls'"
proof (cases "ls = []")
  case True
  then show ?thesis by (simp add: sed_output_def unlines_def)
next
  case False
  then show ?thesis using unlines_last[OF False] by (simp add: sed_output_def)
qed

lemma sed_nested_Cons:
  "sed_nested a1 a2 b1 b2 f (oa, ia) (l # ls) =
    (if oa \<or> a1 l then
       (if ia \<or> b1 l
        then f l # sed_nested a1 a2 b1 b2 f
                     (if oa then \<not> a2 l else True, if ia then \<not> b2 l else True) ls
        else l # sed_nested a1 a2 b1 b2 f (if oa then \<not> a2 l else True, False) ls)
     else l # sed_nested a1 a2 b1 b2 f (False, ia) ls)"
  by (auto simp: range_step_def)

lemma lower_True: "lower ''True'' = ''true''"
  by code_simp

lemma lower_False: "lower ''False'' = ''false''"
  by code_simp

lemma fmt_0d_3_1: "fmt_0d 3 1 = ''001''"
  by code_simp

lemmas eval_defs = fmt_0d_3_1 sanitize_result_def replace_char_def sed_escape_def
  sh_cons_def sh_fail_def subst_anchor_def anchor_at_def lit_def not_at_def expand_def
  step_marker_at_def line_matches_def is_digit_def is_alnum_def check_false_def
  sublist_code sed_lines_unlines sed_output_unlines split_nl_no_NL sed_nested_Cons

subsection \<open>Retries and steps\<close>

lemma is_retryable_error_iff:
  "is_retryable_error e \<longleftrightarrow>
     list_ex (\<lambda>w. sublist w (exn_str e)) [''504'', ''Gateway Timeout'', ''502'', ''503'', ''429'']
     \<or> list_ex (\<lambda>w. sublist w (exn_str e) \<or> sublist w (exn_type e))
          [''ConnectionError'', ''Timeout'', ''timeout'', ''Connection reset'', ''Connection refused'',
           ''Network is unreachable'', ''Temporary failure'', ''Service temporarily unavailable'']"
  unfolding is_retryable_error_def Let_def by auto

lemma retry_loop_props:
  assumes "\<forall>k. 0 \<le> rnd k \<and> rnd k < 1" and "n + a = 3"
  shows "case retry_loop (Suc n) func rnd 3 2 60 2 True a e0 of (out, sleeps) \<Rightarrow>
           length sleeps + a \<le> 3
         \<and> out = func (a + length sleeps)
         \<and> (\<forall>k < length sleeps. (\<exists>e. func (a + k) = Inl e \<and> is_retryable_error e)
               \<and> 2 * 2 ^ (a + k) \<le> sleeps ! k \<and> sleeps ! k < 1.2 * (2 * 2 ^ (a + k)))
         \<and> (\<forall>e. func (a + length sleeps) = Inl e \<and> is_retryable_error e \<longrightarrow> a + length sleeps = 3)"
  using assms
proof (induction n arbitrary: a e0)
  case 0
  then show ?case by (auto split: sum.splits)
next
  case (Suc n)
  show ?case
  proof (cases "func a")
    case (Inr v)
    then show ?thesis using Suc.prems by simp
  next
    case (Inl e)
    show ?thesis
    proof (cases "is_retryable_error e")
      case False
      then show ?thesis using Inl Suc.prems by simp
    next
      case True
      have a3: "a < 3" using Suc.prems by simp
      have pw: "(2::real) * 2 ^ a \<le> 60" using a3
        by (cases a rule: nat.exhaust) (auto simp: numeral_eq_Suc less_Suc_eq)
      obtain out sleeps where r: "retry_loop (Suc n) func rnd 3 2 60 2 True (a + 1) e = (out, sleeps)"
        by (cases "retry_loop (Suc n) func rnd 3 2 60 2 True (a + 1) e") auto
      have ih: "length sleeps + (a + 1) \<le> 3 \<and> out = func (a + 1 + length sleeps)
         \<and> (\<forall>k < length sleeps. (\<exists>e. func (a + 1 + k) = Inl e \<and> is_retryable_error e)
               \<and> 2 * 2 ^ (a + 1 + k) \<le> sleeps ! k \<and> sleeps ! k < 1.2 * (2 * 2 ^ (a + 1 + k)))
         \<and> (\<forall>e. func (a + 1 + length sleeps) = Inl e \<and> is_retryable_error e \<longrightarrow> a + 1 + length sleeps = 3)"
        using Suc.IH[of "a + 1" e] Suc.prems r by simp
      have d: "2 * 2 ^ a \<le> 2 * 2 ^ a + 2 * 2 ^ a * 0.2 * rnd a
               \<and> 2 * 2 ^ a + 2 * 2 ^ a * 0.2 * rnd a < 1.2 * (2 * 2 ^ a)"
        using Suc.prems(1) by (auto simp: algebra_simps)
      have res: "retry_loop (Suc (Suc n)) func rnd 3 2 60 2 True a e0
                 = (out, (2 * 2 ^ a + 2 * 2 ^ a * 0.2 * rnd a) # sleeps)"
        using Inl True a3 pw r by (simp add: Let_def min_def)
      show ?thesis
        unfolding res using ih d Inl True
        by (auto simp: nth_Cons split: nat.splits)
    qed
  qed
qed

lemma run_steps_append:
  "run_steps env sp pid idx (pre @ post) fr =
     (fst (run_steps env sp pid idx pre fr)
        @ fst (run_steps env sp pid (idx + length pre) post (snd (run_steps env sp pid idx pre fr))),
      snd (run_steps env sp pid (idx + length pre) post (snd (run_steps env sp pid idx pre fr))))"
  by (induction pre arbitrary: idx fr) (auto simp: Let_def)

section \<open>The claims\<close>

text \<open>
  C3. Claim: every value written as an anchor value (rationale, sub\_query, skill\_name,
  result) has each \<^verbatim>\<open>@\<close> replaced by \<^verbatim>\<open>(at)\<close> before it is written. \<open>write_plan\<close> does not do
  it: the step block it emits for a rationale \<^verbatim>\<open>mail a@b\<close> holds the \<^verbatim>\<open>@\<close> as it came.
\<close>

theorem write_plan_keeps_at_sign:
  "step_entry ''000001'' (example_step ''mail a@b'') =
     [NL] @ ''---STEP:001:000001---'' @ [NL]
     @ ''@STEP_NR:1@'' @ [NL]
     @ ''@SKILL_NAME:final_response@'' @ [NL]
     @ ''@RATIONALE:mail a@b@'' @ [NL]
     @ ''@SUB_QUERY:hello@'' @ [NL]
     @ ''@STATUS:pending@'' @ [NL]
     @ ''@RESULT:@'' @ [NL]
     @ ''---END_STEP:001:000001---'' @ [NL]"
  by (simp add: step_entry_def example_step_def fmt_0d_3_1 str_int_def dec.simps)

text \<open>
  C6. Claim: a result longer than 500 characters is stored truncated and ending with an
  ellipsis, without \<^verbatim>\<open>@\<close>. The code cuts at 500 characters and appends nothing: a result of
  501 letters \<^verbatim>\<open>a\<close> becomes 500 letters \<^verbatim>\<open>a\<close>.
\<close>

theorem sanitize_result_no_ellipsis:
  "sanitize_result (replicate 501 (CHR ''a'')) = replicate 500 (CHR ''a'')
   \<and> \<not> suffix ''...'' (sanitize_result (replicate 501 (CHR ''a'')))"
  by code_simp

text \<open>
  C7. Claim: the stored \<^verbatim>\<open>@MULTI_STEPS:\<close> value equals (number of steps > 1). \<open>write_plan\<close>
  stores the flag of the decomposition result as it is: a result that says \<open>multi_steps\<close>
  with one step is stored as \<^verbatim>\<open>true\<close> next to \<^verbatim>\<open>@TOTAL_STEPS:1@\<close>.
\<close>

theorem multi_steps_stored_as_given:
  "prefix
     ([NL] @ ''<<<PLAN:000001>>>'' @ [NL]
      @ ''@PLAN_ID:1f0e-77@'' @ [NL]
      @ ''@PLAN_NUMBER:000001@'' @ [NL]
      @ ''@TIMESTAMP:2026-02-01T09:00:01@'' @ [NL]
      @ ''@MULTI_STEPS:true@'' @ [NL]
      @ ''@TOTAL_STEPS:1@'' @ [NL])
     (plan_entry ''000001'' ''1f0e-77'' ''2026-02-01T09:00:01'' ''hello''
        \<lparr>multi_steps = Some (Py_bool True), output_steps = Some [example_step ''greet'']\<rparr> None)"
  by (simp add: plan_entry_def plan_head_def lower_True str_int_def dec.simps)

text \<open>
  C4. Claim: a step whose skill is \<^verbatim>\<open>none\<close> makes no skill call and is closed as \<^verbatim>\<open>failed\<close>
  with a standard unsupported-request result. The loop treats \<^verbatim>\<open>none\<close> like \<^verbatim>\<open>final_response\<close>
  and \<^verbatim>\<open>chitchat\<close>: it asks the language model and records the step as \<^verbatim>\<open>completed\<close>.
\<close>

theorem none_step_marked_completed:
  "run_steps refusing_env ''prompt'' ''1f0e-77'' 0 [none_step] []
   = ([Invoke_llm ''prompt'' ''order me a pizza'',
       Update_step_status ''1f0e-77'' 1 ''completed'' ''I cannot order a pizza.''],
      ''I cannot order a pizza.'')"
  by (simp add: refusing_env_def none_step_def is_empty_step_def run_step_def Let_def)

text \<open>
  C4, amended: for a step whose skill is \<^verbatim>\<open>none\<close>, the loop runs no skill; it calls the
  language model with the step's sub-query, records the step as \<^verbatim>\<open>completed\<close> with the first
  200 characters of the answer, and goes on with the next step.
\<close>

theorem none_step_events:
  assumes "skill_name st = Some ''none''"
  shows "run_steps env system_prompt plan_id 0 (pre @ st # post) [] =
     (fst (run_steps env system_prompt plan_id 0 pre [])
      @ [Invoke_llm system_prompt (case sub_query st of None \<Rightarrow> [] | Some q \<Rightarrow> q),
         Update_step_status plan_id (length pre + 1) ''completed''
           (take 200 (llm env system_prompt (case sub_query st of None \<Rightarrow> [] | Some q \<Rightarrow> q)))]
      @ fst (run_steps env system_prompt plan_id (length pre + 1) post
               (llm env system_prompt (case sub_query st of None \<Rightarrow> [] | Some q \<Rightarrow> q))),
      snd (run_steps env system_prompt plan_id (length pre + 1) post
               (llm env system_prompt (case sub_query st of None \<Rightarrow> [] | Some q \<Rightarrow> q))))"
  using assms
  by (simp add: run_steps_append is_empty_step_def run_step_def Let_def)

theorem none_step_events_witness:
  "skill_name none_step = Some ''none''
   \<and> run_steps refusing_env ''prompt'' ''1f0e-77'' 0 ([] @ none_step # []) [] =
      ([Invoke_llm ''prompt'' ''order me a pizza'',
        Update_step_status ''1f0e-77'' 1 ''completed'' ''I cannot order a pizza.''],
       ''I cannot order a pizza.'')"
proof -
  have h: "skill_name none_step = Some ''none''"
    by (simp add: none_step_def)
  from none_step_events [OF h, of refusing_env "''prompt''" "''1f0e-77''" "[]" "[]"]
  show ?thesis
    using h by (simp add: refusing_env_def none_step_def Let_def)
qed



text \<open>
  C8. Claim: under the default settings a failing call is retried only when the error is
  transient (HTTP 429, 502, 503, 504, connection reset, refused or timed out, DNS
  failure). \<open>_is_retryable_error\<close> looks for pieces of text: a \<open>ValueError\<close> about 4290 tokens
  holds \<^verbatim>\<open>429\<close> and is retried, and the DNS failure \<^verbatim>\<open>Name or service not known\<close> holds none of
  the pieces and is raised at once.
\<close>

theorem retry_not_only_transient:
  "retry_default (\<lambda>k. if k = 0 then Inl token_limit_error else Inr ''ok'') (\<lambda>k. 0) = (Inr ''ok'', [2])
   \<and> retry_default (\<lambda>k. if k = 0 then Inl dns_failure else Inr ''ok'') (\<lambda>k. 0) = (Inl dns_failure, [])"
proof -
  have 1: "is_retryable_error token_limit_error"
    by (simp add: is_retryable_error_def token_limit_error_def sublist_code)
  have 2: "\<not> is_retryable_error dns_failure"
    by (simp add: is_retryable_error_def dns_failure_def sublist_code)
  show ?thesis
    using 1 2 by (simp add: retry_default_def retry_with_backoff_def numeral_eq_Suc Let_def)
qed

text \<open>
  C8, amended: an error is retried exactly when its text holds one of \<^verbatim>\<open>504\<close>,
  \<^verbatim>\<open>Gateway Timeout\<close>, \<^verbatim>\<open>502\<close>, \<^verbatim>\<open>503\<close>, \<^verbatim>\<open>429\<close>, or its text or the name of its type holds
  one of the eight connection keywords. Under the default settings (3 retries, first
  delay 2, factor 2, ceiling 60, jitter) a failing call is retried only after such an
  error, at most 3 times; the delay before retry \<open>k\<close> (counted from 0) is \<open>2 * 2 ^ k\<close> plus a
  jitter of less than 20 percent, the ceiling never being reached; any other error is
  raised at once, with no retry after it. The random numbers are those of
  \<^verbatim>\<open>random.random()\<close>, in \<open>[0, 1)\<close>.
\<close>

theorem retry_default_policy:
  assumes "\<forall>k. 0 \<le> rnd k \<and> rnd k < 1"
  shows "(\<forall>e. is_retryable_error e \<longleftrightarrow>
            list_ex (\<lambda>w. sublist w (exn_str e)) [''504'', ''Gateway Timeout'', ''502'', ''503'', ''429'']
            \<or> list_ex (\<lambda>w. sublist w (exn_str e) \<or> sublist w (exn_type e))
                 [''ConnectionError'', ''Timeout'', ''timeout'', ''Connection reset'', ''Connection refused'',
                  ''Network is unreachable'', ''Temporary failure'', ''Service temporarily unavailable''])
       \<and> (case retry_default func rnd of (out, sleeps) \<Rightarrow>
           length sleeps \<le> 3
         \<and> out = func (length sleeps)
         \<and> (\<forall>k < length sleeps. (\<exists>e. func k = Inl e \<and> is_retryable_error e)
               \<and> 2 * 2 ^ k \<le> sleeps ! k \<and> sleeps ! k < 1.2 * (2 * 2 ^ k))
         \<and> (\<forall>e. func (length sleeps) = Inl e \<and> is_retryable_error e \<longrightarrow> length sleeps = 3)
         \<and> (\<forall>k e. k \<le> length sleeps \<and> func k = Inl e \<and> \<not> is_retryable_error e
               \<longrightarrow> out = Inl e \<and> length sleeps = k))"
proof -
  obtain out sleeps where r: "retry_default func rnd = (out, sleeps)"
    by (cases "retry_default func rnd") auto
  have p: "length sleeps + 0 \<le> 3 \<and> out = func (0 + length sleeps)
         \<and> (\<forall>k < length sleeps. (\<exists>e. func (0 + k) = Inl e \<and> is_retryable_error e)
               \<and> 2 * 2 ^ (0 + k) \<le> sleeps ! k \<and> sleeps ! k < 1.2 * (2 * 2 ^ (0 + k)))
         \<and> (\<forall>e. func (0 + length sleeps) = Inl e \<and> is_retryable_error e \<longrightarrow> 0 + length sleeps = 3)"
    using retry_loop_props[OF assms, of 3 0 func] r
    by (simp add: retry_default_def retry_with_backoff_def numeral_eq_Suc)
  have len: "length sleeps \<le> 3" and out: "out = func (length sleeps)"
    using p by auto
  have sl: "(\<exists>e. func k = Inl e \<and> is_retryable_error e)
               \<and> 2 * 2 ^ k \<le> sleeps ! k \<and> sleeps ! k < 1.2 * (2 * 2 ^ k)"
    if "k < length sleeps" for k
    using p that by auto
  have last: "\<forall>e. func (length sleeps) = Inl e \<and> is_retryable_error e \<longrightarrow> length sleeps = 3"
    using p by simp
  have nonretry: "out = Inl e \<and> length sleeps = k"
    if "k \<le> length sleeps" "func k = Inl e" "\<not> is_retryable_error e" for k e
  proof -
    have nl: "\<not> k < length sleeps"
      using sl[of k] that(2,3) by auto
    have "k = length sleeps"
      using nl that(1) by linarith
    with out that(2) show ?thesis by simp
  qed
  have sl_all: "\<forall>k < length sleeps. (\<exists>e. func k = Inl e \<and> is_retryable_error e)
               \<and> 2 * 2 ^ k \<le> sleeps ! k \<and> sleeps ! k < 1.2 * (2 * 2 ^ k)"
    using sl by blast
  have nonretry_all: "\<forall>k e. k \<le> length sleeps \<and> func k = Inl e \<and> \<not> is_retryable_error e
               \<longrightarrow> out = Inl e \<and> length sleeps = k"
    using nonretry by blast
  have cls: "\<forall>e. is_retryable_error e \<longleftrightarrow>
            list_ex (\<lambda>w. sublist w (exn_str e)) [''504'', ''Gateway Timeout'', ''502'', ''503'', ''429'']
            \<or> list_ex (\<lambda>w. sublist w (exn_str e) \<or> sublist w (exn_type e))
                 [''ConnectionError'', ''Timeout'', ''timeout'', ''Connection reset'', ''Connection refused'',
                  ''Network is unreachable'', ''Temporary failure'', ''Service temporarily unavailable'']"
    using is_retryable_error_iff by blast
  show ?thesis
    unfolding r prod.case
    by (intro conjI) (rule cls len out sl_all last nonretry_all)+
qed

theorem retry_default_policy_witness:
  "(\<forall>k. (0::real) \<le> 1 / 2 \<and> (1 / 2 :: real) < 1)
   \<and> retry_default (\<lambda>k. if k < 2 then Inl gateway_timeout else Inr ''ok'') (\<lambda>k. 1 / 2)
       = (Inr ''ok'', [2.2, 4.4])
   \<and> length (snd (retry_default (\<lambda>k. if k < 2 then Inl gateway_timeout else Inr ''ok'') (\<lambda>k. 1 / 2))) \<le> 3"
proof -
  have h: "\<forall>k::nat. (0::real) \<le> 1 / 2 \<and> (1 / 2 :: real) < 1"
    by simp
  have r: "is_retryable_error gateway_timeout"
    by (simp add: is_retryable_error_def gateway_timeout_def sublist_code)
  have e: "retry_default (\<lambda>k. if k < 2 then Inl gateway_timeout else Inr ''ok'') (\<lambda>k. 1 / 2)
       = (Inr ''ok'', [2.2, 4.4])"
    using r by (simp add: retry_default_def retry_with_backoff_def numeral_eq_Suc Let_def)
  from retry_default_policy [OF h, of "\<lambda>k. if k < 2 then Inl gateway_timeout else Inr ''ok''"]
  have "length (snd (retry_default (\<lambda>k. if k < 2 then Inl gateway_timeout else Inr ''ok'') (\<lambda>k. 1 / 2))) \<le> 3"
    by (auto split: prod.splits)
  with h e show ?thesis by blast
qed

text \<open>
  C10. Claim: the value stored for a result never holds a newline. The sanitised text goes
  through \<open>bash\<close> and \<open>sed\<close>, and a result with the two characters backslash and \<^verbatim>\<open>n\<close> reaches
  \<open>sed\<close> as the escape \<^verbatim>\<open>\n\<close>: the stored value is split over two lines.
\<close>

theorem update_step_status_stores_newline:
  "update_step_status
     \<lparr>plan_file = example_file ''2026-02-01T09:00:02'' ''greet'' ''pending'' [''@RESULT:@''],
      plans_count = 1\<rparr>
     ''2026-02-01T09:00:03'' ''1f0e-77'' 1 ''completed'' (Some (''a'' @ [BSL] @ ''nb''))
   = Some (True,
       \<lparr>plan_file = example_file ''2026-02-01T09:00:03'' ''greet'' ''completed'' [''@RESULT:a'', ''b@''],
        plans_count = 1\<rparr>)"
  unfolding example_file_def update_step_status_def sed_step_cmd_def update_metadata_fast_def
    sed_s_all_def
  by (simp add: eval_defs del: sed_nested.simps(2))

end
